theory Spec2Isabelle
  imports Main
begin

section \<open>Go strings and the library functions the code calls\<close>

text \<open>
  A Go string is a sequence of bytes; \<^typ>\<open>string\<close> (a list of 8-bit characters) models it.
  Slicing and indexing outside the string panic in Go, so they return a sum here.
\<close>

datatype panic = SliceBoundsOutOfRange | IndexOutOfRange | AssignmentToNilMap

text \<open>\<^verbatim>\<open>s[:n]\<close>\<close>
definition slice_to :: "string \<Rightarrow> nat \<Rightarrow> panic + string" where
  "slice_to s n = (if n \<le> length s then Inr (take n s) else Inl SliceBoundsOutOfRange)"

text \<open>\<^verbatim>\<open>s[n:]\<close>\<close>
definition slice_from :: "string \<Rightarrow> nat \<Rightarrow> panic + string" where
  "slice_from s n = (if n \<le> length s then Inr (drop n s) else Inl SliceBoundsOutOfRange)"

text \<open>\<^verbatim>\<open>s[i]\<close>\<close>
definition byte_at :: "string \<Rightarrow> nat \<Rightarrow> panic + char" where
  "byte_at s i = (if i < length s then Inr (s ! i) else Inl IndexOutOfRange)"

text \<open>\<^verbatim>\<open>strings.HasPrefix(s, prefix)\<close>\<close>
definition HasPrefix :: "string \<Rightarrow> string \<Rightarrow> bool" where
  "HasPrefix s p = (length p \<le> length s \<and> take (length p) s = p)"

text \<open>
  The table \<^verbatim>\<open>asciiSpace\<close> of package strings: tab, line feed, vertical tab, form feed,
  carriage return and space.
\<close>
definition asciiSpace :: "char \<Rightarrow> bool" where
  "asciiSpace c = (c = CHR 0x09 \<or> c = CHR 0x0A \<or> c = CHR 0x0B \<or> c = CHR 0x0C
                   \<or> c = CHR 0x0D \<or> c = CHR 0x20)"

text \<open>
  \<^verbatim>\<open>strings.TrimSpace\<close> on its ASCII path: leading and trailing bytes of \<open>asciiSpace\<close> are
  removed. (On a text whose first or last remaining byte is not ASCII the library also
  strips multi-byte Unicode spaces; the properties below that hold for every input are
  stated for an arbitrary trimming function, so they do not depend on that path.)
\<close>
definition TrimSpace :: "string \<Rightarrow> string" where
  "TrimSpace s = rev (dropWhile asciiSpace (rev (dropWhile asciiSpace s)))"

text \<open>
  \<^verbatim>\<open>strings.Split(s, sep)\<close> for a one-byte separator: the pieces between the
  separators, in order; the empty string gives one empty piece. \<open>cur\<close> is the piece being
  read.
\<close>
fun split_from :: "char \<Rightarrow> string \<Rightarrow> string \<Rightarrow> string list" where
  "split_from sep cur [] = [cur]"
| "split_from sep cur (c # cs) =
     (if c = sep then cur # split_from sep [] cs else split_from sep (cur @ [c]) cs)"

definition Split :: "string \<Rightarrow> char \<Rightarrow> string list" where
  "Split s sep = split_from sep [] s"

text \<open>
  \<^verbatim>\<open>strings.Fields(s)\<close> on bytes: the maximal runs of bytes that are not in \<open>asciiSpace\<close>,
  in order. \<open>cur\<close> is the field being read.
\<close>
fun fields_from :: "string \<Rightarrow> string \<Rightarrow> string list" where
  "fields_from cur [] = (if cur = [] then [] else [cur])"
| "fields_from cur (c # cs) =
     (if asciiSpace c
      then (if cur = [] then fields_from [] cs else cur # fields_from [] cs)
      else fields_from (cur @ [c]) cs)"

definition Fields :: "string \<Rightarrow> string list" where
  "Fields s = fields_from [] s"

text \<open>\<^verbatim>\<open>strings.ToLower\<close> on bytes: the letters A to Z are mapped to a to z.\<close>
definition lower_byte :: "char \<Rightarrow> char" where
  "lower_byte c =
     (if (65::nat) \<le> of_char c \<and> of_char c \<le> (90::nat)
      then char_of (of_char c + (32::nat)) else c)"

definition ToLower :: "string \<Rightarrow> string" where
  "ToLower s = map lower_byte s"

section \<open>Package git: the status parser\<close>

record FileStatus =
  Path :: string
  Status :: string
  Type :: string

record GitStatus =
  Modified :: "FileStatus list"
  Staged :: "FileStatus list"
  Untracked :: "FileStatus list"
  Deleted :: "FileStatus list"
  Renamed :: "FileStatus list"
  Conflicted :: "FileStatus list"

text \<open>\<^verbatim>\<open>status := &GitStatus{}\<close>: every bucket a nil slice.\<close>
definition emptyStatus :: GitStatus where
  "emptyStatus = \<lparr>Modified = [], Staged = [], Untracked = [], Deleted = [],
                  Renamed = [], Conflicted = []\<rparr>"

text \<open>
  The \<^verbatim>\<open>switch\<close> of \<^verbatim>\<open>ParseStatus\<close>, its cases in the order of the source; \<^verbatim>\<open>xy[1]\<close>
  is an index expression and can panic.
\<close>
definition classify :: "GitStatus \<Rightarrow> string \<Rightarrow> FileStatus \<Rightarrow> panic + GitStatus" where
  "classify status xy fileStatus =
     (if HasPrefix xy ''M'' then
        (case byte_at xy 1 of
           Inl p \<Rightarrow> Inl p
         | Inr b \<Rightarrow>
             if b = CHR ''M''
             then Inr (status\<lparr>Modified := Modified status @ [fileStatus]\<rparr>)
             else Inr (status\<lparr>Staged := Staged status @ [fileStatus]\<rparr>))
      else if HasPrefix xy ''A'' then
        Inr (status\<lparr>Staged := Staged status @ [fileStatus]\<rparr>)
      else if HasPrefix xy ''D'' then
        Inr (status\<lparr>Deleted := Deleted status @ [fileStatus]\<rparr>)
      else if HasPrefix xy ''R'' then
        Inr (status\<lparr>Renamed := Renamed status @ [fileStatus]\<rparr>)
      else if HasPrefix xy ''??'' then
        Inr (status\<lparr>Untracked := Untracked status @ [fileStatus]\<rparr>)
      else if HasPrefix xy ''UU'' \<or> HasPrefix xy ''AA'' \<or> HasPrefix xy ''DD'' then
        Inr (status\<lparr>Conflicted := Conflicted status @ [fileStatus]\<rparr>)
      else Inr status)"

text \<open>The body of the loop over the lines: the two \<^verbatim>\<open>continue\<close>s, the two slices, the switch.\<close>
definition parse_line :: "GitStatus \<Rightarrow> string \<Rightarrow> panic + GitStatus" where
  "parse_line status line =
     (if line = [] then Inr status
      else if length line < 3 then Inr status
      else
        (case slice_to line 2 of
           Inl p \<Rightarrow> Inl p
         | Inr xy \<Rightarrow>
             (case slice_from line 3 of
                Inl p \<Rightarrow> Inl p
              | Inr path \<Rightarrow>
                  classify status xy \<lparr>Path = path, Status = xy, Type = []\<rparr>)))"

text \<open>\<^verbatim>\<open>for _, line := range lines\<close>; a panic ends the loop.\<close>
fun parse_lines :: "GitStatus \<Rightarrow> string list \<Rightarrow> panic + GitStatus" where
  "parse_lines status [] = Inr status"
| "parse_lines status (line # lines) =
     (case parse_line status line of
        Inl p \<Rightarrow> Inl p
      | Inr status' \<Rightarrow> parse_lines status' lines)"

text \<open>\<^verbatim>\<open>ParseStatus\<close> with the library's trimming function as a parameter.\<close>
definition ParseStatus_with :: "(string \<Rightarrow> string) \<Rightarrow> string \<Rightarrow> panic + GitStatus" where
  "ParseStatus_with trim output = parse_lines emptyStatus (Split (trim output) (CHR 0x0A))"

definition ParseStatus :: "string \<Rightarrow> panic + GitStatus" where
  "ParseStatus output = ParseStatus_with TrimSpace output"

text \<open>The six buckets of a report, in the order of the struct.\<close>
definition buckets :: "GitStatus \<Rightarrow> FileStatus list list" where
  "buckets st = [Modified st, Staged st, Untracked st, Deleted st, Renamed st, Conflicted st]"

text \<open>The entry the parser builds for a line of at least three bytes.\<close>
definition entry_of :: "string \<Rightarrow> FileStatus" where
  "entry_of line = \<lparr>Path = drop 3 line, Status = take 2 line, Type = []\<rparr>"

text \<open>The lines the loop does not skip.\<close>
definition parsed_line :: "string \<Rightarrow> bool" where
  "parsed_line line = (line \<noteq> [] \<and> 3 \<le> length line)"

section \<open>Package config\<close>

record Recipe =
  Description :: string
  Commands :: "string list"
  Tags :: "string list"

record GitSettings =
  DefaultBranch :: string
  Aliases :: "string \<rightharpoonup> string"
  AutoFetch :: bool

record KubernetesSettings =
  DefaultContext :: string
  DefaultNamespace :: string
  ContextAliases :: "string \<rightharpoonup> string"
  NamespaceAliases :: "string \<rightharpoonup> string"

record UISettings =
  Colors :: bool
  Verbose :: bool
  Confirm :: bool
  DryRun :: bool

text \<open>
  The struct \<^verbatim>\<open>Config\<close>. \<open>Recipes\<close> is the field \<^verbatim>\<open>Brew.Recipes\<close> and \<open>TemplatesPath\<close> the
  field \<^verbatim>\<open>Templates.Path\<close>. A Go map can be nil: reading a nil map finds nothing,
  deleting from it does nothing, assigning to it panics. The recipe map is the one map
  the code assigns to, so it is an option, \<open>None\<close> for nil; the alias maps are only read.
\<close>
record Config =
  Git :: GitSettings
  Kubernetes :: KubernetesSettings
  Recipes :: "(string \<rightharpoonup> Recipe) option"
  TemplatesPath :: string
  UI :: UISettings

text \<open>\<^verbatim>\<open>v, exists := m[k]\<close>\<close>
definition map_lookup :: "('k \<rightharpoonup> 'v) option \<Rightarrow> 'k \<Rightarrow> 'v option" where
  "map_lookup m k = (case m of None \<Rightarrow> None | Some f \<Rightarrow> f k)"

text \<open>\<^verbatim>\<open>m[k] = v\<close>\<close>
definition map_assign ::
  "('k \<rightharpoonup> 'v) option \<Rightarrow> 'k \<Rightarrow> 'v \<Rightarrow> panic + ('k \<rightharpoonup> 'v) option" where
  "map_assign m k v =
     (case m of None \<Rightarrow> Inl AssignmentToNilMap | Some f \<Rightarrow> Inr (Some (f(k \<mapsto> v))))"

text \<open>\<^verbatim>\<open>delete(m, k)\<close>\<close>
definition map_delete :: "('k \<rightharpoonup> 'v) option \<Rightarrow> 'k \<Rightarrow> ('k \<rightharpoonup> 'v) option" where
  "map_delete m k = (case m of None \<Rightarrow> None | Some f \<Rightarrow> Some (f(k := None)))"

section \<open>Package cmd: errors, output and the world the commands run in\<close>

text \<open>
  The error values the commands return. \<open>External\<close> is an error made outside this
  program (by \<^verbatim>\<open>fmt.Scanln\<close>, a child process, the file system or the configuration
  library), with its message. The other constructors are the \<^verbatim>\<open>fmt.Errorf\<close> calls of
  the source; those with an argument of type \<open>error\<close> wrap it (\<^verbatim>\<open>%w\<close>).
\<close>
datatype error =
    External string
  | RecipeNameRequired
  | NoCommandsProvided
  | RecipeNotFound string
  | FailedToLoadConfig error
  | FailedToSaveRecipe error
  | FailedToDeleteRecipe error
  | RecipeExecutionFailed error
  | FailedToGetContexts error
  | FailedToSelectContext error
  | FailedToSwitchContext error

text \<open>How a command ends: it returns nil, it returns an error, or it panics.\<close>
datatype outcome = Success | Failure error | Panicked panic

text \<open>
  What the commands print, one constructor for each print statement of the source, with
  the values that fill its format:
  \<^item> \<open>EnterCommands name\<close>: "Enter commands for recipe 'name' (one per line, empty line to finish):"
  \<^item> \<open>Prompt\<close>: "> "
  \<^item> \<open>ErrorReadingInput err\<close>: "Error reading input: err"
  \<^item> \<open>RecipeSaved name\<close>: "Recipe 'name' saved successfully"
  \<^item> \<open>WouldRunRecipe name\<close>: "Would run recipe 'name':"
  \<^item> \<open>WouldRunItem i command\<close>: "  i. command" (in yellow, in a dry run)
  \<^item> \<open>AskRunRecipe name\<close>: "Run recipe 'name'? (y/N): "
  \<^item> \<open>OperationCancelled\<close>: "Operation cancelled"
  \<^item> \<open>RunningRecipe name\<close>: "Running recipe: name"
  \<^item> \<open>DescriptionLine d\<close>: "Description: d"
  \<^item> \<open>BlankLine\<close>: \<^verbatim>\<open>fmt.Println()\<close>
  \<^item> \<open>ExecutingCommand i n command\<close>: "Executing command i/n: command"
  \<^item> \<open>CommandFailed command\<close>: "Command failed: command"
  \<^item> \<open>RecipeCompleted name\<close>: "Recipe 'name' completed successfully"
  \<^item> \<open>WouldDeleteRecipe name\<close>: "Would delete recipe: name"
  \<^item> \<open>AskDeleteRecipe name\<close>: "Delete recipe 'name'? (y/N): "
  \<^item> \<open>RecipeDeleted name\<close>: "Recipe 'name' deleted successfully"
  \<^item> \<open>CurrentRecipe name\<close>: "Current recipe 'name':"
  \<^item> \<open>CurrentTags tags\<close>: "Tags: " and the tags joined by ", "
  \<^item> \<open>CommandsHeader\<close>: "Commands:"
  \<^item> \<open>CommandItem i command\<close>: "  i. command" (in the listing of edit)
  \<^item> \<open>AskNewDescription\<close>: "New description (press Enter to keep current): "
  \<^item> \<open>AskNewTags\<close>: "New tags (comma-separated, press Enter to keep current): "
  \<^item> \<open>EnterNewCommands\<close>: "Enter new commands (one per line, empty line to finish):"
  \<^item> \<open>RecipeUpdated name\<close>: "Recipe 'name' updated successfully"
  \<^item> \<open>WouldRunUseContext target\<close>: "Would run: kubectl config use-context target"
  \<^item> \<open>SwitchedToContext target\<close>: "Switched to context: target"
\<close>
datatype out_line =
    EnterCommands string
  | Prompt
  | ErrorReadingInput error
  | RecipeSaved string
  | WouldRunRecipe string
  | WouldRunItem nat string
  | AskRunRecipe string
  | OperationCancelled
  | RunningRecipe string
  | DescriptionLine string
  | BlankLine
  | ExecutingCommand nat nat string
  | CommandFailed string
  | RecipeCompleted string
  | WouldDeleteRecipe string
  | AskDeleteRecipe string
  | RecipeDeleted string
  | CurrentRecipe string
  | CurrentTags "string list"
  | CommandsHeader
  | CommandItem nat string
  | AskNewDescription
  | AskNewTags
  | EnterNewCommands
  | RecipeUpdated string
  | WouldRunUseContext string
  | SwitchedToContext string

text \<open>Package kubernetes: a kubectl context.\<close>
record Context =
  Name :: string
  Current :: bool

text \<open>The calls to the context lister and to the interactive picker, as they happen.\<close>
datatype k8s_call = CallGetContexts | CallSelectContext "Context list"

text \<open>
  Everything outside the code that the commands read or change:
  \<^item> \<open>dryRun\<close>, \<open>confirm\<close>: the package variables set by the flags \<^verbatim>\<open>--dry-run\<close> and
    \<^verbatim>\<open>--confirm\<close>;
  \<^item> \<open>stdin\<close>: the lines of standard input still to be read, without their line feeds;
  \<^item> \<open>repoConfig\<close>: what \<^verbatim>\<open>config.GetRepoConfig()\<close> returns;
  \<^item> \<open>saveError\<close>: the error \<^verbatim>\<open>config.SaveConfig\<close> returns, \<open>None\<close> for nil;
  \<^item> \<open>saved\<close>: the configurations handed to \<^verbatim>\<open>config.SaveConfig\<close>, oldest first
    (with a nil result the configuration file holds the last one);
  \<^item> \<open>runResult\<close>: the error \<^verbatim>\<open>cmdExec.Run()\<close> returns (\<open>None\<close> for exit status 0) for an
    argument vector, given the argument vectors run before it;
  \<^item> \<open>procs\<close>: the argument vectors handed to \<^verbatim>\<open>exec.Command(...).Run()\<close>, oldest first;
  \<^item> \<open>contextsResult\<close>: what \<^verbatim>\<open>kubernetes.GetContexts()\<close> returns;
  \<^item> \<open>pickResult\<close>: what \<^verbatim>\<open>kubernetes.SelectContext\<close> returns for a list of contexts;
  \<^item> \<open>calls\<close>: the calls to these two, oldest first;
  \<^item> \<open>out\<close>: what has been printed, oldest first.
\<close>
record World =
  dryRun :: bool
  confirm :: bool
  stdin :: "string list"
  repoConfig :: "error + Config"
  saveError :: "error option"
  saved :: "Config list"
  runResult :: "string list list \<Rightarrow> string list \<Rightarrow> error option"
  procs :: "string list list"
  contextsResult :: "error + Context list"
  pickResult :: "Context list \<Rightarrow> error + string"
  calls :: "k8s_call list"
  out :: "out_line list"

definition print :: "out_line \<Rightarrow> World \<Rightarrow> World" where
  "print l w = w\<lparr>out := out w @ [l]\<rparr>"

text \<open>
  \<^verbatim>\<open>fmt.Scanln(&s)\<close> with one string operand, on one line of input: the library skips
  leading spaces, reports "unexpected newline" when the line ends before a word begins,
  reads one word, and reports "expected newline" when anything but spaces follows it.
  A successful read therefore never yields the empty string.
\<close>
definition scan_word :: "string \<Rightarrow> error + string" where
  "scan_word line =
     (case Fields line of
        [] \<Rightarrow> Inl (External ''unexpected newline'')
      | [word] \<Rightarrow> Inr word
      | word # others \<Rightarrow> Inl (External ''expected newline''))"

text \<open>
  \<^verbatim>\<open>_, err := fmt.Scanln(&s)\<close>: the next line of standard input is read; at the end of
  input the library reports "unexpected EOF". (After "expected newline" the library
  leaves the rest of the line unread; every caller returns at once on an error, so the
  line is dropped here.)
\<close>
definition Scanln :: "World \<Rightarrow> (error + string) \<times> World" where
  "Scanln w =
     (case stdin w of
        [] \<Rightarrow> (Inl (External ''unexpected EOF''), w)
      | line # rest \<Rightarrow> (scan_word line, w\<lparr>stdin := rest\<rparr>))"

text \<open>\<^verbatim>\<open>config.SaveConfig(cfg)\<close>\<close>
definition SaveConfig :: "Config \<Rightarrow> World \<Rightarrow> error option \<times> World" where
  "SaveConfig cfg w = (saveError w, w\<lparr>saved := saved w @ [cfg]\<rparr>)"

text \<open>\<^verbatim>\<open>exec.Command(parts[0], parts[1:]...)\<close> with the standard streams, then \<^verbatim>\<open>Run()\<close>.\<close>
definition Run :: "string list \<Rightarrow> World \<Rightarrow> error option \<times> World" where
  "Run parts w = (runResult w (procs w) parts, w\<lparr>procs := procs w @ [parts]\<rparr>)"

text \<open>\<^verbatim>\<open>kubernetes.GetContexts()\<close>, the lister.\<close>
definition GetContexts :: "World \<Rightarrow> (error + Context list) \<times> World" where
  "GetContexts w = (contextsResult w, w\<lparr>calls := calls w @ [CallGetContexts]\<rparr>)"

text \<open>\<^verbatim>\<open>kubernetes.SelectContext(contexts)\<close>, the picker.\<close>
definition SelectContext :: "Context list \<Rightarrow> World \<Rightarrow> (error + string) \<times> World" where
  "SelectContext contexts w =
     (pickResult w contexts, w\<lparr>calls := calls w @ [CallSelectContext contexts]\<rparr>)"

section \<open>Package cmd: the recipe commands\<close>

text \<open>
  \<^verbatim>\<open>for i, command := range commands { print("  %d. %s", i+1, command) }\<close>, the listing
  loop of the dry run (\<open>item = WouldRunItem\<close>) and of edit (\<open>item = CommandItem\<close>);
  \<open>i\<close> is the index of the first command of the list.
\<close>
fun print_numbered ::
  "(nat \<Rightarrow> string \<Rightarrow> out_line) \<Rightarrow> nat \<Rightarrow> string list \<Rightarrow> World \<Rightarrow> World" where
  "print_numbered item i [] w = w"
| "print_numbered item i (command # rest) w =
     print_numbered item (i + 1) rest (print (item (i + 1) command) w)"

text \<open>
  The confirmation block of \<^verbatim>\<open>brewRunCmd\<close> and \<^verbatim>\<open>brewDeleteCmd\<close>, which differ in the
  question only. \<open>Some r\<close> is a return from the command with \<open>r\<close>; \<open>None\<close> goes on.
\<close>
definition ask_confirmation ::
  "out_line \<Rightarrow> Config \<Rightarrow> World \<Rightarrow> outcome option \<times> World" where
  "ask_confirmation question cfg w =
     (if \<not> confirm w \<and> \<not> Confirm (UI cfg) then
        (case Scanln (print question w) of
           (Inl err, w1) \<Rightarrow> (Some (Failure err), print (ErrorReadingInput err) w1)
         | (Inr response, w1) \<Rightarrow>
             if ToLower response \<noteq> ''y'' \<and> ToLower response \<noteq> ''yes''
             then (Some Success, print OperationCancelled w1)
             else (None, w1))
      else (None, w))"

text \<open>
  The loop "Execute commands" of \<^verbatim>\<open>brewRunCmd\<close>; \<open>i\<close> is the index of the first command
  of the list and \<open>n\<close> is \<^verbatim>\<open>len(recipe.Commands)\<close>. \<open>Some r\<close> is a return from the command.
\<close>
fun run_commands ::
  "nat \<Rightarrow> nat \<Rightarrow> string list \<Rightarrow> World \<Rightarrow> outcome option \<times> World" where
  "run_commands i n [] w = (None, w)"
| "run_commands i n (command # rest) w =
     (let w1 = print (ExecutingCommand (i + 1) n command) w;
          parts = Fields command
      in if length parts = 0 then run_commands (i + 1) n rest w1
         else
           (case Run parts w1 of
              (Some err, w2) \<Rightarrow>
                (Some (Failure (RecipeExecutionFailed err)), print (CommandFailed command) w2)
            | (None, w2) \<Rightarrow> run_commands (i + 1) n rest (print BlankLine w2)))"

text \<open>
  \<^verbatim>\<open>brewRunCmd\<close> after the confirmation, from "Running recipe" on: the state Executing
  and its two ends.
\<close>
definition execute_recipe :: "string \<Rightarrow> Recipe \<Rightarrow> World \<Rightarrow> outcome \<times> World" where
  "execute_recipe name recipe w =
     (let w1 = print (RunningRecipe name) w;
          w2 = (if Description recipe \<noteq> []
                then print (DescriptionLine (Description recipe)) w1
                else w1);
          w3 = print BlankLine w2
      in (case run_commands 0 (length (Commands recipe)) (Commands recipe) w3 of
            (Some r, w4) \<Rightarrow> (r, w4)
          | (None, w4) \<Rightarrow> (Success, print (RecipeCompleted name) w4)))"

definition brewRunCmd :: "string list \<Rightarrow> World \<Rightarrow> outcome \<times> World" where
  "brewRunCmd args w =
     (if length args = 0 then (Failure RecipeNameRequired, w)
      else
        let name = args ! 0 in
        (case repoConfig w of
           Inl err \<Rightarrow> (Failure (FailedToLoadConfig err), w)
         | Inr cfg \<Rightarrow>
             (case map_lookup (Recipes cfg) name of
                None \<Rightarrow> (Failure (RecipeNotFound name), w)
              | Some recipe \<Rightarrow>
                  if dryRun w then
                    (Success,
                     print_numbered WouldRunItem 0 (Commands recipe)
                       (print (WouldRunRecipe name) w))
                  else
                    (case ask_confirmation (AskRunRecipe name) cfg w of
                       (Some r, w1) \<Rightarrow> (r, w1)
                     | (None, w1) \<Rightarrow> execute_recipe name recipe w1))))"

text \<open>
  The loop that reads the commands of a recipe in \<^verbatim>\<open>brewSaveCmd\<close> and \<^verbatim>\<open>brewEditCmd\<close>:
  it ends with the commands read so far on an empty input, and with the error on a
  failed read.
\<close>
function read_commands :: "string list \<Rightarrow> World \<Rightarrow> (error + string list) \<times> World" where
  "read_commands commands w =
     (case Scanln (print Prompt w) of
        (Inl err, w1) \<Rightarrow> (Inl err, print (ErrorReadingInput err) w1)
      | (Inr input, w1) \<Rightarrow>
          if input = [] then (Inr commands, w1)
          else read_commands (commands @ [input]) w1)"
  by pat_completeness auto
termination
  by (relation "measure (\<lambda>(commands, w). length (stdin w))")
     (auto simp: Scanln_def print_def split: list.splits)

declare read_commands.simps [simp del]

text \<open>
  The end of \<^verbatim>\<open>brewSaveCmd\<close> and of \<^verbatim>\<open>brewEditCmd\<close>: the recipe is assigned to its name
  in the recipe map of the loaded configuration, the configuration is saved, and \<open>done\<close>
  is printed ("saved successfully", "updated successfully").
\<close>
definition store_recipe ::
  "string \<Rightarrow> Recipe \<Rightarrow> Config \<Rightarrow> out_line \<Rightarrow> World \<Rightarrow> outcome \<times> World" where
  "store_recipe name recipe cfg done w =
     (case map_assign (Recipes cfg) name recipe of
        Inl p \<Rightarrow> (Panicked p, w)
      | Inr recipes \<Rightarrow>
          (case SaveConfig (cfg\<lparr>Recipes := recipes\<rparr>) w of
             (Some err, w1) \<Rightarrow> (Failure (FailedToSaveRecipe err), w1)
           | (None, w1) \<Rightarrow> (Success, print done w1)))"

text \<open>
  \<^verbatim>\<open>brewSaveCmd\<close> from the check of the commands on: the recipe store operation
  \<open>save(name, description, commands, tags)\<close>.
\<close>
definition save_recipe ::
  "string \<Rightarrow> string \<Rightarrow> string list \<Rightarrow> string list \<Rightarrow> World \<Rightarrow> outcome \<times> World" where
  "save_recipe name description commands tags w =
     (if length commands = 0 then (Failure NoCommandsProvided, w)
      else
        (case repoConfig w of
           Inl err \<Rightarrow> (Failure (FailedToLoadConfig err), w)
         | Inr cfg \<Rightarrow>
             store_recipe name
               \<lparr>Description = description, Commands = commands, Tags = tags\<rparr>
               cfg (RecipeSaved name) w))"

text \<open>\<open>description\<close> and \<open>tags\<close> are the values of the flags of the same names.\<close>
definition brewSaveCmd ::
  "string list \<Rightarrow> string \<Rightarrow> string list \<Rightarrow> World \<Rightarrow> outcome \<times> World" where
  "brewSaveCmd args description tags w =
     (if length args = 0 then (Failure RecipeNameRequired, w)
      else
        let name = args ! 0 in
        (case read_commands [] (print (EnterCommands name) w) of
           (Inl err, w1) \<Rightarrow> (Failure err, w1)
         | (Inr commands, w1) \<Rightarrow> save_recipe name description commands tags w1))"

text \<open>
  The end of \<^verbatim>\<open>brewDeleteCmd\<close>: the name is deleted from the recipe map of the loaded
  configuration and the configuration is saved.
\<close>
definition remove_recipe :: "string \<Rightarrow> Config \<Rightarrow> World \<Rightarrow> outcome \<times> World" where
  "remove_recipe name cfg w =
     (case SaveConfig (cfg\<lparr>Recipes := map_delete (Recipes cfg) name\<rparr>) w of
        (Some err, w1) \<Rightarrow> (Failure (FailedToDeleteRecipe err), w1)
      | (None, w1) \<Rightarrow> (Success, print (RecipeDeleted name) w1))"

definition brewDeleteCmd :: "string list \<Rightarrow> World \<Rightarrow> outcome \<times> World" where
  "brewDeleteCmd args w =
     (if length args = 0 then (Failure RecipeNameRequired, w)
      else
        let name = args ! 0 in
        (case repoConfig w of
           Inl err \<Rightarrow> (Failure (FailedToLoadConfig err), w)
         | Inr cfg \<Rightarrow>
             (case map_lookup (Recipes cfg) name of
                None \<Rightarrow> (Failure (RecipeNotFound name), w)
              | Some recipe \<Rightarrow>
                  if dryRun w then (Success, print (WouldDeleteRecipe name) w)
                  else
                    (case ask_confirmation (AskDeleteRecipe name) cfg w of
                       (Some r, w1) \<Rightarrow> (r, w1)
                     | (None, w1) \<Rightarrow> remove_recipe name cfg w1))))"

text \<open>
  \<^verbatim>\<open>brewEditCmd\<close> from "Get new description" on: the three reads, each replacing a
  field of the local copy \<open>recipe\<close> when something was entered, then the store.
\<close>
definition edit_recipe :: "string \<Rightarrow> Recipe \<Rightarrow> Config \<Rightarrow> World \<Rightarrow> outcome \<times> World" where
  "edit_recipe name recipe cfg w =
     (case Scanln (print AskNewDescription w) of
        (Inl err, w1) \<Rightarrow> (Failure err, print (ErrorReadingInput err) w1)
      | (Inr newDescription, w1) \<Rightarrow>
          let recipe1 = (if newDescription \<noteq> []
                         then recipe\<lparr>Description := newDescription\<rparr> else recipe)
          in
          (case Scanln (print AskNewTags w1) of
             (Inl err, w2) \<Rightarrow> (Failure err, print (ErrorReadingInput err) w2)
           | (Inr newTags, w2) \<Rightarrow>
               let recipe2 = (if newTags \<noteq> []
                              then recipe1\<lparr>Tags := map TrimSpace (Split newTags (CHR '',''))\<rparr>
                              else recipe1)
               in
               (case read_commands [] (print EnterNewCommands w2) of
                  (Inl err, w3) \<Rightarrow> (Failure err, w3)
                | (Inr newCommands, w3) \<Rightarrow>
                    let recipe3 = (if length newCommands > 0
                                   then recipe2\<lparr>Commands := newCommands\<rparr> else recipe2)
                    in store_recipe name recipe3 cfg (RecipeUpdated name) w3)))"

definition brewEditCmd :: "string list \<Rightarrow> World \<Rightarrow> outcome \<times> World" where
  "brewEditCmd args w =
     (if length args = 0 then (Failure RecipeNameRequired, w)
      else
        let name = args ! 0 in
        (case repoConfig w of
           Inl err \<Rightarrow> (Failure (FailedToLoadConfig err), w)
         | Inr cfg \<Rightarrow>
             (case map_lookup (Recipes cfg) name of
                None \<Rightarrow> (Failure (RecipeNotFound name), w)
              | Some recipe \<Rightarrow>
                  let w1 = print (CurrentRecipe name) w;
                      w2 = print (DescriptionLine (Description recipe)) w1;
                      w3 = print (CurrentTags (Tags recipe)) w2;
                      w4 = print CommandsHeader w3;
                      w5 = print_numbered CommandItem 0 (Commands recipe) w4;
                      w6 = print BlankLine w5
                  in edit_recipe name recipe cfg w6)))"

section \<open>Package cmd: switching the kubectl context\<close>

text \<open>
  The resolution of the target in \<^verbatim>\<open>kctxCmd\<close>: the \<^verbatim>\<open>if len(args) > 0 ... else ...\<close>
  that sets \<^verbatim>\<open>targetContext\<close>.
\<close>
definition kctx_target :: "Config \<Rightarrow> string list \<Rightarrow> World \<Rightarrow> (error + string) \<times> World" where
  "kctx_target cfg args w =
     (if length args > 0 then
        let targetContext = args ! 0 in
        (case ContextAliases (Kubernetes cfg) targetContext of
           Some alias \<Rightarrow> (Inr alias, w)
         | None \<Rightarrow> (Inr targetContext, w))
      else
        (case GetContexts w of
           (Inl err, w1) \<Rightarrow> (Inl (FailedToGetContexts err), w1)
         | (Inr contexts, w1) \<Rightarrow>
             (case SelectContext contexts w1 of
                (Inl err, w2) \<Rightarrow> (Inl (FailedToSelectContext err), w2)
              | (Inr selected, w2) \<Rightarrow> (Inr selected, w2))))"

definition kctxCmd :: "string list \<Rightarrow> World \<Rightarrow> outcome \<times> World" where
  "kctxCmd args w =
     (case repoConfig w of
        Inl err \<Rightarrow> (Failure (FailedToLoadConfig err), w)
      | Inr cfg \<Rightarrow>
          (case kctx_target cfg args w of
             (Inl err, w1) \<Rightarrow> (Failure err, w1)
           | (Inr targetContext, w1) \<Rightarrow>
               if dryRun w1 then (Success, print (WouldRunUseContext targetContext) w1)
               else
                 (case Run [''kubectl'', ''config'', ''use-context'', targetContext] w1 of
                    (Some err, w2) \<Rightarrow> (Failure (FailedToSwitchContext err), w2)
                  | (None, w2) \<Rightarrow> (Success, print (SwitchedToContext targetContext) w2))))"

section \<open>Notions used to state the properties\<close>

text \<open>The argument vectors of the commands of a recipe that are not blank, in order.\<close>
definition argvs :: "string list \<Rightarrow> string list list" where
  "argvs commands = filter (\<lambda>parts. parts \<noteq> []) (map Fields commands)"




text \<open>
  Two configurations that differ at most in the recipe stored under \<open>name\<close>: the git
  settings, the kubernetes settings with their aliases, the templates path, the UI flags
  and every other recipe are the same.
\<close>
definition same_but_recipe :: "string \<Rightarrow> Config \<Rightarrow> Config \<Rightarrow> bool" where
  "same_but_recipe name cfg cfg' =
     (Git cfg' = Git cfg \<and> Kubernetes cfg' = Kubernetes cfg
      \<and> TemplatesPath cfg' = TemplatesPath cfg \<and> UI cfg' = UI cfg
      \<and> (\<forall>n. n \<noteq> name \<longrightarrow> map_lookup (Recipes cfg') n = map_lookup (Recipes cfg) n))"

text \<open>
  From world \<open>w\<close> to world \<open>w'\<close> nothing was handed to \<open>SaveConfig\<close>, or one configuration
  was, and it differs from the loaded one at most in the recipe stored under \<open>name\<close>.
\<close>
definition saves_only_recipe :: "string \<Rightarrow> World \<Rightarrow> World \<Rightarrow> bool" where
  "saves_only_recipe name w w' =
     (saved w' = saved w
      \<or> (\<exists>cfg cfg'. repoConfig w = Inr cfg \<and> saved w' = saved w @ [cfg']
                     \<and> same_but_recipe name cfg cfg'))"

section \<open>A configuration and a world to run the commands in\<close>

definition demo_recipes :: "string \<rightharpoonup> Recipe" where
  "demo_recipes =
     [''abc'' \<mapsto> \<lparr>Description = ''three steps'',
                   Commands = [''echo a'', ''false'', ''echo b''], Tags = []\<rparr>,
      ''one'' \<mapsto> \<lparr>Description = [], Commands = [''false now''], Tags = [''t'']\<rparr>]"

definition demo_config :: Config where
  "demo_config =
     \<lparr>Git = \<lparr>DefaultBranch = ''main'', Aliases = Map.empty, AutoFetch = True\<rparr>,
      Kubernetes = \<lparr>DefaultContext = [], DefaultNamespace = ''default'',
                    ContextAliases = [''prod'' \<mapsto> ''production-cluster''],
                    NamespaceAliases = Map.empty\<rparr>,
      Recipes = Some demo_recipes,
      TemplatesPath = ''/home/user/.opsbrew/templates'',
      UI = \<lparr>Colors = True, Verbose = False, Confirm = False, DryRun = False\<rparr>\<rparr>"

text \<open>A process fails with "exit status 1" when its binary is \<open>false\<close>, and succeeds otherwise.\<close>
definition demo_run :: "string list list \<Rightarrow> string list \<Rightarrow> error option" where
  "demo_run hist parts =
     (if take 1 parts = [''false''] then Some (External ''exit status 1'') else None)"

text \<open>
  A world with the flags \<open>dry\<close> and \<open>skip\<close>, the input \<open>lines\<close>, the configuration above,
  nothing saved, run or printed yet.
\<close>
definition demo_world :: "bool \<Rightarrow> bool \<Rightarrow> string list \<Rightarrow> World" where
  "demo_world dry skip lines =
     \<lparr>dryRun = dry, confirm = skip, stdin = lines, repoConfig = Inr demo_config,
      saveError = None, saved = [], runResult = demo_run, procs = [],
      contextsResult = Inr [], pickResult = (\<lambda>contexts. Inl (External ''abort'')),
      calls = [], out = []\<rparr>"

section \<open>Properties of the status parser\<close>

lemmas parse_defs = ParseStatus_def ParseStatus_with_def TrimSpace_def asciiSpace_def Split_def
  parse_line_def classify_def slice_to_def slice_from_def byte_at_def HasPrefix_def
  emptyStatus_def

lemma classify_total: "length xy = 2 \<Longrightarrow> \<exists>r. classify st xy fs = Inr r"
  by (auto simp: classify_def byte_at_def)

lemma parse_line_total: "\<exists>r. parse_line st l = Inr r"
  by (auto simp: parse_line_def slice_to_def slice_from_def intro!: classify_total)

lemma parse_lines_total: "\<exists>r. parse_lines st ls = Inr r"
proof (induction ls arbitrary: st)
  case Nil show ?case by simp
next
  case (Cons l ls)
  obtain st' where "parse_line st l = Inr st'" using parse_line_total by blast
  with Cons show ?case by simp
qed

lemma parse_line_skip: "\<not> parsed_line l \<Longrightarrow> parse_line st l = Inr st"
  by (auto simp: parsed_line_def parse_line_def)

lemma parse_lines_filter: "parse_lines st ls = parse_lines st (filter parsed_line ls)"
proof (induction ls arbitrary: st)
  case Nil show ?case by simp
next
  case (Cons l ls)
  show ?case
  proof (cases "parsed_line l")
    case True
    then show ?thesis using Cons by (simp split: sum.splits)
  next
    case False
    then show ?thesis using Cons by (simp add: parse_line_skip)
  qed
qed

lemma classify_one_bucket:
  assumes "length xy = 2"
  shows "\<exists>st'. classify st xy fs = Inr st' \<and>
     (buckets st' = buckets st \<or> (\<exists>i<6. buckets st' = (buckets st)[i := buckets st ! i @ [fs]]))"
proof -
  have len: "1 < length xy" using assms by simp
  have c0: "\<exists>i<6::nat. i = 0" by simp
  consider (m) "HasPrefix xy ''M''" "xy ! 1 = CHR ''M''"
    | (s) "HasPrefix xy ''M''" "xy ! 1 \<noteq> CHR ''M''"
    | (a) "\<not> HasPrefix xy ''M''" "HasPrefix xy ''A''"
    | (d) "\<not> HasPrefix xy ''M''" "\<not> HasPrefix xy ''A''" "HasPrefix xy ''D''"
    | (r) "\<not> HasPrefix xy ''M''" "\<not> HasPrefix xy ''A''" "\<not> HasPrefix xy ''D''" "HasPrefix xy ''R''"
    | (u) "\<not> HasPrefix xy ''M''" "\<not> HasPrefix xy ''A''" "\<not> HasPrefix xy ''D''" "\<not> HasPrefix xy ''R''" "HasPrefix xy ''??''"
    | (c) "\<not> HasPrefix xy ''M''" "\<not> HasPrefix xy ''A''" "\<not> HasPrefix xy ''D''" "\<not> HasPrefix xy ''R''" "\<not> HasPrefix xy ''??''"
          "HasPrefix xy ''UU'' \<or> HasPrefix xy ''AA'' \<or> HasPrefix xy ''DD''"
    | (n) "\<not> HasPrefix xy ''M''" "\<not> HasPrefix xy ''A''" "\<not> HasPrefix xy ''D''" "\<not> HasPrefix xy ''R''" "\<not> HasPrefix xy ''??''"
          "\<not> (HasPrefix xy ''UU'' \<or> HasPrefix xy ''AA'' \<or> HasPrefix xy ''DD'')"
    by blast
  then show ?thesis
  proof cases
    case m
    have "classify st xy fs = Inr (st\<lparr>Modified := Modified st @ [fs]\<rparr>)"
      using m len by (simp add: classify_def byte_at_def)
    moreover have "buckets (st\<lparr>Modified := Modified st @ [fs]\<rparr>) = (buckets st)[0 := buckets st ! 0 @ [fs]]"
      by (simp add: buckets_def)
    ultimately show ?thesis by (metis zero_less_numeral)
  next
    case s
    have "classify st xy fs = Inr (st\<lparr>Staged := Staged st @ [fs]\<rparr>)"
      using s len by (simp add: classify_def byte_at_def)
    moreover have "buckets (st\<lparr>Staged := Staged st @ [fs]\<rparr>) = (buckets st)[1 := buckets st ! 1 @ [fs]]"
      by (simp add: buckets_def)
    moreover have "(1::nat) < 6" by simp
    ultimately show ?thesis by metis
  next
    case a
    have "classify st xy fs = Inr (st\<lparr>Staged := Staged st @ [fs]\<rparr>)"
      using a by (simp add: classify_def)
    moreover have "buckets (st\<lparr>Staged := Staged st @ [fs]\<rparr>) = (buckets st)[1 := buckets st ! 1 @ [fs]]"
      by (simp add: buckets_def)
    moreover have "(1::nat) < 6" by simp
    ultimately show ?thesis by metis
  next
    case d
    have "classify st xy fs = Inr (st\<lparr>Deleted := Deleted st @ [fs]\<rparr>)"
      using d by (simp add: classify_def)
    moreover have "buckets (st\<lparr>Deleted := Deleted st @ [fs]\<rparr>) = (buckets st)[3 := buckets st ! 3 @ [fs]]"
      by (simp add: buckets_def)
    moreover have "(3::nat) < 6" by simp
    ultimately show ?thesis by metis
  next
    case r
    have "classify st xy fs = Inr (st\<lparr>Renamed := Renamed st @ [fs]\<rparr>)"
      using r by (simp add: classify_def)
    moreover have "buckets (st\<lparr>Renamed := Renamed st @ [fs]\<rparr>) = (buckets st)[4 := buckets st ! 4 @ [fs]]"
      by (simp add: buckets_def)
    moreover have "(4::nat) < 6" by simp
    ultimately show ?thesis by metis
  next
    case u
    have "classify st xy fs = Inr (st\<lparr>Untracked := Untracked st @ [fs]\<rparr>)"
      using u by (simp add: classify_def)
    moreover have "buckets (st\<lparr>Untracked := Untracked st @ [fs]\<rparr>) = (buckets st)[2 := buckets st ! 2 @ [fs]]"
      by (simp add: buckets_def)
    moreover have "(2::nat) < 6" by simp
    ultimately show ?thesis by metis
  next
    case c
    have "classify st xy fs = Inr (st\<lparr>Conflicted := Conflicted st @ [fs]\<rparr>)"
      using c by (simp add: classify_def)
    moreover have "buckets (st\<lparr>Conflicted := Conflicted st @ [fs]\<rparr>) = (buckets st)[5 := buckets st ! 5 @ [fs]]"
      by (simp add: buckets_def)
    moreover have "(5::nat) < 6" by simp
    ultimately show ?thesis by metis
  next
    case n
    have "classify st xy fs = Inr st"
      using n by (simp add: classify_def)
    then show ?thesis by simp
  qed
qed

lemma parse_line_long:
  "parsed_line l \<Longrightarrow> parse_line st l = classify st (take 2 l) (entry_of l)"
  by (simp add: parsed_line_def parse_line_def slice_to_def slice_from_def entry_of_def)

text \<open>
  Claim C1. The claim: every line of at least three bytes whose code is \<open>UU\<close>, \<open>AA\<close> or
  \<open>DD\<close> goes to the conflicted bucket and to no other. The switch tests the prefixes
  \<open>A\<close> and \<open>D\<close> before its conflict case, so that case is reached by \<open>UU\<close> only: the line
  \<open>AA both.txt\<close> is reported as staged and \<open>DD gone.txt\<close> as deleted, and the conflicted
  bucket stays empty for both.
\<close>

theorem ParseStatus_AA_DD_not_conflicted:
  "ParseStatus ''AA both.txt'' =
     Inr \<lparr>Modified = [], Staged = [\<lparr>Path = ''both.txt'', Status = ''AA'', Type = []\<rparr>],
          Untracked = [], Deleted = [], Renamed = [], Conflicted = []\<rparr>
   \<and> ParseStatus ''DD gone.txt'' =
     Inr \<lparr>Modified = [], Staged = [], Untracked = [],
          Deleted = [\<lparr>Path = ''gone.txt'', Status = ''DD'', Type = []\<rparr>],
          Renamed = [], Conflicted = []\<rparr>
   \<and> ParseStatus ''UU both.txt'' =
     Inr \<lparr>Modified = [], Staged = [], Untracked = [], Deleted = [], Renamed = [],
          Conflicted = [\<lparr>Path = ''both.txt'', Status = ''UU'', Type = []\<rparr>]\<rparr>"
  by (simp add: parse_defs)

text \<open>
  Claim C5. The status text of the scenario, four lines each ended by a line feed, is
  classified into staged \<open>a.txt\<close>, modified \<open>b.txt\<close>, untracked \<open>c.txt\<close> and conflicted
  \<open>d.txt\<close>; the deleted and renamed buckets are empty.
\<close>

theorem ParseStatus_scenario:
  "ParseStatus (''M  a.txt'' @ [CHR 0x0A] @ ''MM b.txt'' @ [CHR 0x0A] @ ''?? c.txt''
                 @ [CHR 0x0A] @ ''UU d.txt'' @ [CHR 0x0A]) =
     Inr \<lparr>Modified = [\<lparr>Path = ''b.txt'', Status = ''MM'', Type = []\<rparr>],
          Staged = [\<lparr>Path = ''a.txt'', Status = ''M '', Type = []\<rparr>],
          Untracked = [\<lparr>Path = ''c.txt'', Status = ''??'', Type = []\<rparr>],
          Deleted = [], Renamed = [],
          Conflicted = [\<lparr>Path = ''d.txt'', Status = ''UU'', Type = []\<rparr>]\<rparr>"
  by (simp add: parse_defs)

text \<open>
  Claim C8. Whatever the trimming function, the report is the one computed from the lines
  of at least three bytes alone: an empty line and a line of one or two bytes leave the
  report as it is. A line of at least three bytes leaves the six buckets as they are or
  appends its entry to exactly one of them.
\<close>

theorem ParseStatus_skips_short_lines:
  "ParseStatus_with trim output =
      parse_lines emptyStatus (filter parsed_line (Split (trim output) (CHR 0x0A)))
   \<and> (\<not> parsed_line line \<longrightarrow> parse_line st line = Inr st)
   \<and> (parsed_line line \<longrightarrow>
        (\<exists>st'. parse_line st line = Inr st' \<and>
           (buckets st' = buckets st \<or>
            (\<exists>i<6. buckets st' = (buckets st)[i := buckets st ! i @ [entry_of line]]))))"
proof (intro conjI impI)
  show "ParseStatus_with trim output =
      parse_lines emptyStatus (filter parsed_line (Split (trim output) (CHR 0x0A)))"
    unfolding ParseStatus_with_def by (rule parse_lines_filter)
next
  assume "\<not> parsed_line line"
  then show "parse_line st line = Inr st" by (rule parse_line_skip)
next
  assume p: "parsed_line line"
  then have "length (take 2 line) = 2" by (simp add: parsed_line_def)
  from classify_one_bucket[OF this, of st "entry_of line"] p
  show "\<exists>st'. parse_line st line = Inr st' \<and>
           (buckets st' = buckets st \<or>
            (\<exists>i<6. buckets st' = (buckets st)[i := buckets st ! i @ [entry_of line]]))"
    by (simp add: parse_line_long)
qed

theorem ParseStatus_skips_short_lines_witness:
  "ParseStatus ([CHR 0x0A] @ ''ab'' @ [CHR 0x0A] @ ''M  a.txt'' @ [CHR 0x0A, CHR 0x0A] @ ''??'')
     = parse_lines emptyStatus [''M  a.txt'']
   \<and> parse_line emptyStatus ''ab'' = Inr emptyStatus
   \<and> (\<exists>st'. parse_line emptyStatus ''M  a.txt'' = Inr st' \<and>
           (buckets st' = buckets emptyStatus \<or>
            (\<exists>i<6. buckets st' = (buckets emptyStatus)[i := buckets emptyStatus ! i @ [entry_of ''M  a.txt'']])))"
  using ParseStatus_skips_short_lines [of TrimSpace "[CHR 0x0A] @ ''ab'' @ [CHR 0x0A] @ ''M  a.txt'' @ [CHR 0x0A, CHR 0x0A] @ ''??''" "''ab''" emptyStatus]
    ParseStatus_skips_short_lines [of TrimSpace "[]" "''M  a.txt''" emptyStatus]
  by (simp add: ParseStatus_def TrimSpace_def asciiSpace_def parsed_line_def Split_def)

text \<open>
  Claim C9. The parser returns a report for every input and every trimming function:
  no slice or index expression is out of range. A line shorter than three bytes is
  skipped before any slicing; on a longer line \<^verbatim>\<open>line[:2]\<close>, \<^verbatim>\<open>line[3:]\<close> and
  \<^verbatim>\<open>xy[1]\<close> are in range; a line of exactly three bytes is classified with the empty path.
\<close>

theorem ParseStatus_never_panics:
  "(\<exists>r. ParseStatus_with trim output = Inr r)
   \<and> (length line < 3 \<longrightarrow> parse_line st line = Inr st)
   \<and> (3 \<le> length line \<longrightarrow>
        slice_to line 2 = Inr (take 2 line) \<and> slice_from line 3 = Inr (drop 3 line)
        \<and> byte_at (take 2 line) 1 = Inr (line ! 1)
        \<and> (\<exists>st'. parse_line st line = Inr st'))
   \<and> (length line = 3 \<longrightarrow>
        parse_line st line = classify st (take 2 line) \<lparr>Path = [], Status = take 2 line, Type = []\<rparr>)"
proof (intro conjI impI)
  show "\<exists>r. ParseStatus_with trim output = Inr r"
    unfolding ParseStatus_with_def by (rule parse_lines_total)
next
  assume "length line < 3"
  then show "parse_line st line = Inr st" by (simp add: parse_line_def)
next
  assume "3 \<le> length line"
  then show "slice_to line 2 = Inr (take 2 line)" by (simp add: slice_to_def)
next
  assume "3 \<le> length line"
  then show "slice_from line 3 = Inr (drop 3 line)" by (simp add: slice_from_def)
next
  assume "3 \<le> length line"
  then show "byte_at (take 2 line) 1 = Inr (line ! 1)" by (simp add: byte_at_def)
next
  show "\<exists>st'. parse_line st line = Inr st'" by (rule parse_line_total)
next
  assume "length line = 3"
  then show "parse_line st line = classify st (take 2 line) \<lparr>Path = [], Status = take 2 line, Type = []\<rparr>"
    by (auto simp: parse_line_def slice_to_def slice_from_def)
qed

theorem ParseStatus_never_panics_witness:
  "(\<exists>r. ParseStatus ''?? '' = Inr r)
   \<and> parse_line emptyStatus ''M'' = Inr emptyStatus
   \<and> parse_line emptyStatus ''?? '' = Inr (emptyStatus\<lparr>Untracked := [\<lparr>Path = [], Status = ''??'', Type = []\<rparr>]\<rparr>)"
  using ParseStatus_never_panics [of TrimSpace "''?? ''" "''M''" emptyStatus] ParseStatus_never_panics [of TrimSpace "''?? ''" "''?? ''" emptyStatus]
  by (simp add: ParseStatus_def classify_def HasPrefix_def emptyStatus_def)

section \<open>Properties of the commands\<close>

lemma print_fields [simp]:
  "out (print l w) = out w @ [l]" "procs (print l w) = procs w" "saved (print l w) = saved w"
  "stdin (print l w) = stdin w" "calls (print l w) = calls w" "dryRun (print l w) = dryRun w"
  "confirm (print l w) = confirm w" "repoConfig (print l w) = repoConfig w"
  "saveError (print l w) = saveError w" "runResult (print l w) = runResult w"
  by (simp_all add: print_def)

lemma print_numbered_out:
  "print_numbered item i commands w =
     w\<lparr>out := out w @ map (\<lambda>(j, c). item (j + 1) c) (enumerate i commands)\<rparr>"
proof (induction commands arbitrary: i w)
  case Nil
  show ?case by simp
next
  case (Cons c cs)
  show ?case by (simp add: Cons.IH print_def)
qed

text \<open>
  Claim C3. For every recipe of the loaded configuration, a run with the dry-run flag
  returns nil and changes nothing but the output: no process is handed to \<open>Run\<close>, no
  input is read, and the output gains the header and then every command of the recipe
  in its stored order, numbered from 1.
\<close>

theorem brewRunCmd_dry_run:
  assumes "dryRun w" and "repoConfig w = Inr cfg"
    and "map_lookup (Recipes cfg) name = Some recipe"
  shows "brewRunCmd (name # args) w =
           (Success,
            w\<lparr>out := out w @ WouldRunRecipe name
                    # map (\<lambda>(i, command). WouldRunItem (i + 1) command)
                          (enumerate 0 (Commands recipe))\<rparr>)"
  using assms by (simp add: brewRunCmd_def print_numbered_out print_def)

theorem brewRunCmd_dry_run_witness:
  "brewRunCmd [''abc''] (demo_world True False []) =
     (Success,
      (demo_world True False [])
        \<lparr>out := [WouldRunRecipe ''abc'', WouldRunItem 1 ''echo a'',
                 WouldRunItem 2 ''false'', WouldRunItem 3 ''echo b'']\<rparr>)
   \<and> procs (demo_world True False []) = []"
  using brewRunCmd_dry_run [of "demo_world True False []" demo_config "''abc''"
      "\<lparr>Description = ''three steps'', Commands = [''echo a'', ''false'', ''echo b''], Tags = []\<rparr>" "[]"]
  by (simp add: demo_world_def demo_config_def demo_recipes_def map_lookup_def enumerate_eq_zip)

lemma kctx_target_explicit:
  "length args > 0 \<Longrightarrow>
   kctx_target cfg args w =
     (Inr (case ContextAliases (Kubernetes cfg) (args ! 0) of
             Some alias \<Rightarrow> alias | None \<Rightarrow> args ! 0), w)"
  by (simp add: kctx_target_def Let_def split: option.splits)

text \<open>
  Claim C4. With an explicit argument the target is the alias table's value when the
  argument is a key of the table, and the argument itself otherwise, for every alias
  table; the world is returned as it was, so neither the lister nor the picker is
  called, and the whole command calls neither.
\<close>

theorem kctx_explicit_argument:
  assumes "length args > 0"
  shows "kctx_target cfg args w =
           (Inr (case ContextAliases (Kubernetes cfg) (args ! 0) of
                   Some alias \<Rightarrow> alias | None \<Rightarrow> args ! 0), w)
         \<and> calls (snd (kctxCmd args w)) = calls w"
proof
  show "kctx_target cfg args w =
           (Inr (case ContextAliases (Kubernetes cfg) (args ! 0) of
                   Some alias \<Rightarrow> alias | None \<Rightarrow> args ! 0), w)"
    using assms by (rule kctx_target_explicit)
  show "calls (snd (kctxCmd args w)) = calls w"
  proof (cases "repoConfig w")
    case (Inl err)
    then show ?thesis by (simp add: kctxCmd_def)
  next
    case (Inr c)
    then show ?thesis
      by (simp add: kctxCmd_def kctx_target_explicit [OF assms] Run_def
               split: option.splits)
  qed
qed

theorem kctx_explicit_argument_witness:
  "kctx_target demo_config [''prod''] (demo_world False True [])
     = (Inr ''production-cluster'', demo_world False True [])
   \<and> kctx_target demo_config [''other''] (demo_world False True [])
     = (Inr ''other'', demo_world False True [])
   \<and> calls (snd (kctxCmd [''prod''] (demo_world False True []))) = []
   \<and> procs (snd (kctxCmd [''prod''] (demo_world False True [])))
     = [[''kubectl'', ''config'', ''use-context'', ''production-cluster'']]"
  using kctx_explicit_argument [of "[''prod'']" demo_config "demo_world False True []"]
    kctx_explicit_argument [of "[''other'']" demo_config "demo_world False True []"]
  by (simp add: demo_config_def demo_world_def kctxCmd_def kctx_target_def Run_def demo_run_def print_def)

lemma fields_from_nonempty: "[] \<notin> set (fields_from cur s)"
  by (induction s arbitrary: cur) auto

lemma scan_word_nonempty: "scan_word line = Inr word \<Longrightarrow> word \<noteq> []"
proof -
  assume a: "scan_word line = Inr word"
  have "[] \<notin> set (Fields line)" by (simp add: Fields_def fields_from_nonempty)
  with a show ?thesis
    by (auto simp: scan_word_def split: list.splits)
qed

lemma Scanln_nonempty: "Scanln w = (Inr input, w') \<Longrightarrow> input \<noteq> []"
  by (auto simp: Scanln_def split: list.splits dest: scan_word_nonempty)

lemma Scanln_keeps:
  "Scanln w = (r, w') \<Longrightarrow>
     saved w' = saved w \<and> repoConfig w' = repoConfig w \<and> saveError w' = saveError w
     \<and> procs w' = procs w \<and> calls w' = calls w \<and> runResult w' = runResult w"
  by (auto simp: Scanln_def split: list.splits)

lemma Scanln_error: "Scanln w = (Inl err, w') \<Longrightarrow> \<exists>msg. err = External msg"
  by (auto simp: Scanln_def scan_word_def split: list.splits)

lemma read_commands_fails:
  "\<exists>msg w'. read_commands commands w = (Inl (External msg), w')
             \<and> saved w' = saved w \<and> procs w' = procs w"
proof (induction commands w rule: read_commands.induct)
  case (1 commands w)
  obtain r w1 where s: "Scanln (print Prompt w) = (r, w1)" by (cases "Scanln (print Prompt w)")
  from Scanln_keeps [OF s] have k: "saved w1 = saved w" "procs w1 = procs w" by simp_all
  show ?case
  proof (cases r)
    case (Inl err)
    with s obtain msg where "err = External msg" by (auto dest: Scanln_error)
    with Inl s k show ?thesis by (simp add: read_commands.simps [of commands w])
  next
    case (Inr input)
    with s have ne: "input \<noteq> []" by (auto dest: Scanln_nonempty)
    from "1.IH" [OF s [symmetric] Inr ne] k Inr s ne
    show ?thesis by (simp add: read_commands.simps [of commands w])
  qed
qed

text \<open>
  Claim C7. The claim: saving with an empty list of commands fails with the validation
  error and changes nothing, and saving with a list that is not empty stores the recipe
  under its name and persists it. In \<^verbatim>\<open>brewSaveCmd\<close> the list comes from the loop of
  \<^verbatim>\<open>fmt.Scanln\<close> calls, which is meant to end on an empty line; \<^verbatim>\<open>Scanln\<close> reports an
  empty line as the error "unexpected newline", so the loop ends only by returning a
  read error. For every input the command returns an error, which is "recipe name is
  required" or a read error and never "no commands provided", and nothing is handed to
  \<open>SaveConfig\<close>. With the empty line alone, and with the command \<open>ls\<close> followed by the
  empty line, the command returns "unexpected newline" and stores nothing.
\<close>

theorem brewSaveCmd_never_saves:
  "(\<exists>err w'. brewSaveCmd args description tags w = (Failure err, w')
            \<and> saved w' = saved w
            \<and> (err = RecipeNameRequired \<or> (\<exists>msg. err = External msg)))
   \<and> brewSaveCmd [''x''] ''d'' [] (demo_world False False [[]])
       = (Failure (External ''unexpected newline''),
          (demo_world False False [])
            \<lparr>out := [EnterCommands ''x'', Prompt,
                     ErrorReadingInput (External ''unexpected newline'')]\<rparr>)
   \<and> brewSaveCmd [''x''] ''d'' [] (demo_world False False [''ls'', []])
       = (Failure (External ''unexpected newline''),
          (demo_world False False [])
            \<lparr>out := [EnterCommands ''x'', Prompt, Prompt,
                     ErrorReadingInput (External ''unexpected newline'')]\<rparr>)"
proof (intro conjI)
  show "\<exists>err w'. brewSaveCmd args description tags w = (Failure err, w')
            \<and> saved w' = saved w
            \<and> (err = RecipeNameRequired \<or> (\<exists>msg. err = External msg))"
  proof (cases "length args = 0")
    case True
    then show ?thesis by (simp add: brewSaveCmd_def)
  next
    case False
    obtain msg w' where
      "read_commands [] (print (EnterCommands (args ! 0)) w) = (Inl (External msg), w')"
      and "saved w' = saved (print (EnterCommands (args ! 0)) w)"
      using read_commands_fails by blast
    with False show ?thesis by (simp add: brewSaveCmd_def)
  qed
next
  show "brewSaveCmd [''x''] ''d'' [] (demo_world False False [[]])
       = (Failure (External ''unexpected newline''),
          (demo_world False False [])
            \<lparr>out := [EnterCommands ''x'', Prompt,
                     ErrorReadingInput (External ''unexpected newline'')]\<rparr>)"
    by (simp add: brewSaveCmd_def read_commands.simps Scanln_def scan_word_def Fields_def
        print_def demo_world_def)
next
  show "brewSaveCmd [''x''] ''d'' [] (demo_world False False [''ls'', []])
       = (Failure (External ''unexpected newline''),
          (demo_world False False [])
            \<lparr>out := [EnterCommands ''x'', Prompt, Prompt,
                     ErrorReadingInput (External ''unexpected newline'')]\<rparr>)"
    by (simp add: brewSaveCmd_def read_commands.simps Scanln_def scan_word_def Fields_def
        print_def demo_world_def asciiSpace_def)
qed

lemma argvs_simps [simp]:
  "argvs [] = []"
  "argvs (c # cs) = (if Fields c = [] then argvs cs else Fields c # argvs cs)"
  by (simp_all add: argvs_def)


lemmas run_defs = brewRunCmd_def execute_recipe_def ask_confirmation_def Run_def print_def
  Scanln_def scan_word_def Fields_def asciiSpace_def ToLower_def lower_byte_def
  map_lookup_def demo_world_def demo_config_def demo_recipes_def demo_run_def Let_def




text \<open>
  Claim C6. The claim: at the prompt "Run recipe 'name'? (y/N): " every answer that is
  not y or yes, whatever the case of its letters, ends the run as cancelled, with no
  error and nothing executed. The answer is read with \<^verbatim>\<open>fmt.Scanln\<close>, which reports an
  empty line as the error "unexpected newline" and a line of several words as the error
  "expected newline": on the empty answer (the default No of the prompt) and on the
  answer \<open>no thanks\<close> the command prints "Error reading input" and returns the read error
  instead of cancelling. An answer of one word that is not yes, such as \<open>n\<close>, cancels.
\<close>

theorem brewRunCmd_empty_answer_is_error:
  "brewRunCmd [''abc''] (demo_world False False [[]]) =
     (Failure (External ''unexpected newline''),
      (demo_world False False [])
        \<lparr>out := [AskRunRecipe ''abc'',
                 ErrorReadingInput (External ''unexpected newline'')]\<rparr>)
   \<and> brewRunCmd [''abc''] (demo_world False False [''no thanks'']) =
     (Failure (External ''expected newline''),
      (demo_world False False [])
        \<lparr>out := [AskRunRecipe ''abc'',
                 ErrorReadingInput (External ''expected newline'')]\<rparr>)
   \<and> brewRunCmd [''abc''] (demo_world False False [''n'']) =
     (Success,
      (demo_world False False [])
        \<lparr>out := [AskRunRecipe ''abc'', OperationCancelled]\<rparr>)"
  by (simp add: run_defs)

lemma map_lookup_assign:
  "map_assign m name v = Inr m' \<Longrightarrow> n \<noteq> name \<Longrightarrow> map_lookup m' n = map_lookup m n"
  by (auto simp: map_assign_def map_lookup_def split: option.splits)

lemma map_lookup_delete:
  "n \<noteq> name \<Longrightarrow> map_lookup (map_delete m name) n = map_lookup m n"
  by (simp add: map_delete_def map_lookup_def split: option.splits)

lemma store_recipe_frame:
  "saved (snd (store_recipe name recipe cfg done w)) = saved w
   \<or> (\<exists>cfg'. saved (snd (store_recipe name recipe cfg done w)) = saved w @ [cfg']
             \<and> same_but_recipe name cfg cfg')"
proof (cases "map_assign (Recipes cfg) name recipe")
  case (Inl p)
  then show ?thesis by (simp add: store_recipe_def)
next
  case (Inr recipes)
  have "same_but_recipe name cfg (cfg\<lparr>Recipes := recipes\<rparr>)"
    using map_lookup_assign [OF Inr] by (simp add: same_but_recipe_def)
  moreover have "saved (snd (store_recipe name recipe cfg done w))
                   = saved w @ [cfg\<lparr>Recipes := recipes\<rparr>]"
    using Inr by (simp add: store_recipe_def SaveConfig_def split: option.splits)
  ultimately show ?thesis by blast
qed

lemma remove_recipe_frame:
  "\<exists>cfg'. saved (snd (remove_recipe name cfg w)) = saved w @ [cfg']
          \<and> same_but_recipe name cfg cfg'"
proof -
  have "same_but_recipe name cfg (cfg\<lparr>Recipes := map_delete (Recipes cfg) name\<rparr>)"
    by (simp add: same_but_recipe_def map_lookup_delete)
  moreover have "saved (snd (remove_recipe name cfg w))
                   = saved w @ [cfg\<lparr>Recipes := map_delete (Recipes cfg) name\<rparr>]"
    by (simp add: remove_recipe_def SaveConfig_def split: option.splits)
  ultimately show ?thesis by blast
qed

lemma ask_confirmation_keeps:
  "ask_confirmation question cfg w = (r, w1) \<Longrightarrow>
     saved w1 = saved w \<and> repoConfig w1 = repoConfig w"
  by (auto simp: ask_confirmation_def Scanln_def split: if_splits list.splits sum.splits)

lemma brewSaveCmd_saved: "saved (snd (brewSaveCmd args description tags w)) = saved w"
proof (cases "length args = 0")
  case True
  then show ?thesis by (simp add: brewSaveCmd_def)
next
  case False
  obtain msg w' where
    "read_commands [] (print (EnterCommands (args ! 0)) w) = (Inl (External msg), w')"
    and "saved w' = saved (print (EnterCommands (args ! 0)) w)"
    using read_commands_fails by blast
  with False show ?thesis by (simp add: brewSaveCmd_def)
qed

lemma edit_recipe_saved: "saved (snd (edit_recipe name recipe cfg w)) = saved w"
proof -
  obtain r1 w1 where s1: "Scanln (print AskNewDescription w) = (r1, w1)"
    by (cases "Scanln (print AskNewDescription w)")
  from Scanln_keeps [OF s1] have k1: "saved w1 = saved w" by simp
  show ?thesis
  proof (cases r1)
    case (Inl err)
    with s1 k1 show ?thesis by (simp add: edit_recipe_def)
  next
    case d: (Inr newDescription)
    obtain r2 w2 where s2: "Scanln (print AskNewTags w1) = (r2, w2)"
      by (cases "Scanln (print AskNewTags w1)")
    from Scanln_keeps [OF s2] have k2: "saved w2 = saved w1" by simp
    show ?thesis
    proof (cases r2)
      case (Inl err)
      with s1 s2 d k1 k2 show ?thesis by (simp add: edit_recipe_def Let_def)
    next
      case t: (Inr newTags)
      obtain msg w3 where
        "read_commands [] (print EnterNewCommands w2) = (Inl (External msg), w3)"
        and "saved w3 = saved (print EnterNewCommands w2)"
        using read_commands_fails by blast
      with s1 s2 d t k1 k2 show ?thesis by (simp add: edit_recipe_def Let_def)
    qed
  qed
qed

lemma print_numbered_saved [simp]: "saved (print_numbered item i commands w) = saved w"
  by (simp add: print_numbered_out)

lemma brewEditCmd_saved: "saved (snd (brewEditCmd args w)) = saved w"
  by (simp add: brewEditCmd_def Let_def edit_recipe_saved split: sum.splits option.splits)

lemma brewDeleteCmd_frame:
  "saves_only_recipe (args ! 0) w (snd (brewDeleteCmd args w))"
proof (cases "length args = 0")
  case True
  then show ?thesis by (simp add: brewDeleteCmd_def saves_only_recipe_def)
next
  case na: False
  show ?thesis
  proof (cases "repoConfig w")
    case (Inl err)
    with na show ?thesis by (simp add: brewDeleteCmd_def saves_only_recipe_def)
  next
    case c: (Inr cfg)
    show ?thesis
    proof (cases "map_lookup (Recipes cfg) (args ! 0)")
      case None
      with na c show ?thesis by (simp add: brewDeleteCmd_def saves_only_recipe_def)
    next
      case (Some recipe)
      show ?thesis
      proof (cases "dryRun w")
        case True
        with na c Some show ?thesis by (simp add: brewDeleteCmd_def saves_only_recipe_def)
      next
        case dr: False
        obtain r w1 where a: "ask_confirmation (AskDeleteRecipe (args ! 0)) cfg w = (r, w1)"
          by (cases "ask_confirmation (AskDeleteRecipe (args ! 0)) cfg w")
        from ask_confirmation_keeps [OF a] have k: "saved w1 = saved w" by simp
        show ?thesis
        proof (cases r)
          case (Some res)
          with na c \<open>map_lookup (Recipes cfg) (args ! 0) = Some recipe\<close> dr a k show ?thesis
            by (simp add: brewDeleteCmd_def saves_only_recipe_def)
        next
          case None
          have "snd (brewDeleteCmd args w) = snd (remove_recipe (args ! 0) cfg w1)"
            using na c \<open>map_lookup (Recipes cfg) (args ! 0) = Some recipe\<close> dr a None
            by (simp add: brewDeleteCmd_def)
          with remove_recipe_frame [of "args ! 0" cfg w1] k c show ?thesis
            by (auto simp: saves_only_recipe_def)
        qed
      qed
    qed
  qed
qed

lemmas delete_defs = brewDeleteCmd_def remove_recipe_def ask_confirmation_def SaveConfig_def
  print_def map_lookup_def map_delete_def demo_world_def demo_config_def demo_recipes_def Let_def

text \<open>
  Claim C10. Whatever the arguments, the input and the world, each of the commands save,
  delete and edit hands nothing to \<open>SaveConfig\<close>, or hands it one configuration that
  equals the loaded one in the git settings, the kubernetes settings and aliases, the
  templates path, the UI flags and every recipe but the one under the given name. The
  same holds for the two places where the commands change the recipe map and save: the
  assignment at the end of save and edit, and the deletion at the end of delete, for
  every name, recipe and loaded configuration.
\<close>

theorem recipe_commands_change_one_entry:
  "saves_only_recipe (args ! 0) w (snd (brewSaveCmd args description tags w))
   \<and> saves_only_recipe (args ! 0) w (snd (brewDeleteCmd args w))
   \<and> saves_only_recipe (args ! 0) w (snd (brewEditCmd args w))
   \<and> (\<exists>cfg'. saved (snd (remove_recipe name cfg w)) = saved w @ [cfg']
              \<and> same_but_recipe name cfg cfg')
   \<and> (saved (snd (store_recipe name recipe cfg done w)) = saved w
       \<or> (\<exists>cfg'. saved (snd (store_recipe name recipe cfg done w)) = saved w @ [cfg']
                  \<and> same_but_recipe name cfg cfg'))"
  by (intro conjI brewDeleteCmd_frame remove_recipe_frame store_recipe_frame)
     (simp_all add: saves_only_recipe_def brewSaveCmd_saved brewEditCmd_saved)

theorem recipe_commands_change_one_entry_witness:
  "(\<exists>cfg'. saved (snd (brewDeleteCmd [''one''] (demo_world False True []))) = [cfg']
      \<and> Git cfg' = Git demo_config \<and> Kubernetes cfg' = Kubernetes demo_config
      \<and> TemplatesPath cfg' = TemplatesPath demo_config \<and> UI cfg' = UI demo_config
      \<and> map_lookup (Recipes cfg') ''abc'' = map_lookup (Recipes demo_config) ''abc''
      \<and> map_lookup (Recipes cfg') ''one'' = None)
   \<and> (\<exists>cfg'. saved (snd (store_recipe ''x''
                 \<lparr>Description = ''d'', Commands = [''echo 1''], Tags = []\<rparr>
                 demo_config (RecipeSaved ''x'') (demo_world False True []))) = [cfg']
      \<and> Git cfg' = Git demo_config
      \<and> map_lookup (Recipes cfg') ''abc'' = map_lookup (Recipes demo_config) ''abc''
      \<and> map_lookup (Recipes cfg') ''x''
          = Some \<lparr>Description = ''d'', Commands = [''echo 1''], Tags = []\<rparr>)"
  using recipe_commands_change_one_entry [of "[''one'']" "demo_world False True []" "[]" "[]"
      "''x''" demo_config "\<lparr>Description = ''d'', Commands = [''echo 1''], Tags = []\<rparr>"
      "RecipeSaved ''x''"]
  by (simp add: delete_defs store_recipe_def map_assign_def)

end
